theory Spec2Isabelle
  imports Main "HOL-Library.Sublist"
begin

section \<open>The code block instructions module\<close>

text \<open>
  A shallow embedding of \<^verbatim>\<open>bot/cogs/codeblock/instructions.py\<close>. The module builds the
  message that tells a user how to repair a Markdown code block. It calls into the
  sibling module \<^verbatim>\<open>parsing\<close> for the scanner, the language specifier analyser, the two
  code classifiers and two constants; that module is a parameter of every definition
  below, so each theorem holds for every scanner, analyser and classifier. Where a
  theorem needs the contract of the scanner, the contract is its hypothesis.

  Python strings are modelled as \<^typ>\<open>string\<close>, \<^verbatim>\<open>Optional[str]\<close> as \<^typ>\<open>string option\<close>,
  and an operation that can raise returns a sum with the error on the left.
\<close>

subsection \<open>Data of the parsing module\<close>

text \<open>
  \<^verbatim>\<open>CodeBlock\<close> and the analyser's result are named tuples in the source; the module reads
  the fields \<^verbatim>\<open>content\<close>, \<^verbatim>\<open>language\<close>, \<^verbatim>\<open>tick\<close> of the first and \<^verbatim>\<open>language\<close>,
  \<^verbatim>\<open>leading_spaces\<close>, \<^verbatim>\<open>terminal_newline\<close> of the second.
\<close>

datatype CodeBlock =
  CodeBlock (content: string) (language: string) (tick: string)

datatype BadLanguage =
  BadLanguage (language: string) (leading_spaces: bool) (terminal_newline: bool)

record parsing =
  BACKTICK :: string
  PY_LANG_CODES :: "string list"
  find_code_blocks :: "string \<Rightarrow> CodeBlock list option"
  parse_bad_language :: "string \<Rightarrow> BadLanguage option"
  is_repl_code :: "string \<Rightarrow> bool"
  is_python_code :: "string \<Rightarrow> bool"

datatype error = IndexError

subsection \<open>String operations of the Python runtime\<close>

abbreviation BSL :: char where
  "BSL \<equiv> CHR 0x5C"

abbreviation NL :: char where
  "NL \<equiv> CHR 0x0A"

text \<open>
  \<^verbatim>\<open>str.lower\<close>. A character of the model is a code point below 256; on these
  \<^verbatim>\<open>str.lower\<close> works character by character: it maps the letters \<open>A\<close> to \<open>Z\<close> and the
  Latin-1 capitals \<open>0xC0\<close> to \<open>0xDE\<close>, the multiplication sign \<open>0xD7\<close> apart, to the code
  point 32 above, and leaves every other character as it is. Text with code points from
  256 on is outside the string type of the model.
\<close>

definition UPPER :: string where
  "UPPER = ''ABCDEFGHIJKLMNOPQRSTUVWXYZ'' @ [
          CHR 0xC0, CHR 0xC1, CHR 0xC2, CHR 0xC3, CHR 0xC4, CHR 0xC5, CHR 0xC6, CHR 0xC7,
          CHR 0xC8, CHR 0xC9, CHR 0xCA, CHR 0xCB, CHR 0xCC, CHR 0xCD, CHR 0xCE, CHR 0xCF,
          CHR 0xD0, CHR 0xD1, CHR 0xD2, CHR 0xD3, CHR 0xD4, CHR 0xD5, CHR 0xD6, CHR 0xD8,
          CHR 0xD9, CHR 0xDA, CHR 0xDB, CHR 0xDC, CHR 0xDD, CHR 0xDE]"

definition LOWER :: string where
  "LOWER = ''abcdefghijklmnopqrstuvwxyz'' @ [
          CHR 0xE0, CHR 0xE1, CHR 0xE2, CHR 0xE3, CHR 0xE4, CHR 0xE5, CHR 0xE6, CHR 0xE7,
          CHR 0xE8, CHR 0xE9, CHR 0xEA, CHR 0xEB, CHR 0xEC, CHR 0xED, CHR 0xEE, CHR 0xEF,
          CHR 0xF0, CHR 0xF1, CHR 0xF2, CHR 0xF3, CHR 0xF4, CHR 0xF5, CHR 0xF6, CHR 0xF8,
          CHR 0xF9, CHR 0xFA, CHR 0xFB, CHR 0xFC, CHR 0xFD, CHR 0xFE]"

definition lower_char :: "char \<Rightarrow> char" where
  "lower_char c = (case map_of (zip UPPER LOWER) c of Some d \<Rightarrow> d | None \<Rightarrow> c)"

definition lower :: "string \<Rightarrow> string" where
  "lower s = map lower_char s"

text \<open>\<^verbatim>\<open>s.replace(old, new, 1)\<close>: the leftmost occurrence of \<open>old\<close> is replaced.\<close>

fun replace_first :: "string \<Rightarrow> string \<Rightarrow> string \<Rightarrow> string" where
  "replace_first old new [] = (if old = [] then new else [])"
| "replace_first old new (c # cs) =
     (if prefix old (c # cs) then new @ drop (length old) (c # cs)
      else c # replace_first old new cs)"

text \<open>\<^verbatim>\<open>sep.join(xs)\<close>.\<close>

fun join :: "string \<Rightarrow> string list \<Rightarrow> string" where
  "join sep [] = []"
| "join sep [x] = x"
| "join sep (x # y # ys) = x @ sep @ join sep (y # ys)"

text \<open>\<^verbatim>\<open>s * 3\<close> on a string.\<close>

definition times3 :: "string \<Rightarrow> string" where
  "times3 s = concat (replicate 3 s)"

text \<open>Truth value of an \<^verbatim>\<open>Optional[str]\<close>: \<^verbatim>\<open>None\<close> and the empty string are false.\<close>

fun truthy :: "string option \<Rightarrow> bool" where
  "truthy None = False"
| "truthy (Some s) = (s \<noteq> [])"

text \<open>The text of a string up to its first line break.\<close>

definition first_line :: "string \<Rightarrow> string" where
  "first_line s = takeWhile (\<lambda>c. c \<noteq> NL) s"


subsection \<open>Templates\<close>

definition EXAMPLE_PY :: "string \<Rightarrow> string" where
  "EXAMPLE_PY lang = lang @ [NL] @ ''print('Hello, world!')''"

definition ESCAPED_FENCE :: string where
  "ESCAPED_FENCE = [BSL, CHR 0x60, BSL, CHR 0x60, BSL, CHR 0x60]"

definition RESULT_HEADER :: string where
  "RESULT_HEADER = ''**This will result in the following:**''"

definition EXAMPLE_CODE_BLOCKS :: "string \<Rightarrow> string" where
  "EXAMPLE_CODE_BLOCKS cont =
     ESCAPED_FENCE @ cont @ [NL] @ ESCAPED_FENCE @ [NL, NL]
     @ RESULT_HEADER @ [NL]
     @ ''```'' @ cont @ ''```''"

subsection \<open>The example generator\<close>

definition get_example :: "parsing \<Rightarrow> string \<Rightarrow> string" where
  "get_example p lang =
     (let cont =
        (if lower lang \<in> set (PY_LANG_CODES p) then EXAMPLE_PY lang
         else if lang \<noteq> [] then lang @ [NL] @ ''...''
         else [NL] @ ''Hello, world!'')
      in EXAMPLE_CODE_BLOCKS cont)"

subsection \<open>Message templates\<close>

text \<open>The f-strings of the advisors, as functions of the values they interpolate.\<close>

definition NO_TICKS_MESSAGE :: "string \<Rightarrow> string" where
  "NO_TICKS_MESSAGE example_blocks =
     ''It looks like you're trying to paste code into this channel.'' @ [NL, NL]
     @ ''Discord has support for Markdown, which allows you to post code with full ''
     @ ''syntax highlighting. Please use these whenever you paste code, as this ''
     @ ''helps improve the legibility and makes it easier for us to help you.'' @ [NL, NL]
     @ ''**To do this, use the following method:**'' @ [NL] @ example_blocks"

definition NO_SPACES_LINE :: "string \<Rightarrow> string" where
  "NO_SPACES_LINE lang =
     ''Make sure there are no spaces between the back ticks and `'' @ lang @ ''`.''"

definition NEW_LINE_LINE :: "string \<Rightarrow> string" where
  "NEW_LINE_LINE lang =
     ''Make sure you put your code on a new line following `'' @ lang @ ''`. ''
     @ ''There must not be any spaces after `'' @ lang @ ''`.''"

definition BAD_LANG_MESSAGE :: "string \<Rightarrow> string \<Rightarrow> string" where
  "BAD_LANG_MESSAGE lines example_blocks =
     ''It looks like you incorrectly specified a language for your code block.''
     @ [NL, NL] @ lines @ [NL, NL]
     @ ''**Here is an example of how it should look:**'' @ [NL] @ example_blocks"

definition NO_LANG_MESSAGE :: "string \<Rightarrow> string" where
  "NO_LANG_MESSAGE example_blocks =
     ''It looks like you pasted Python code without syntax highlighting.'' @ [NL, NL]
     @ ''Please use syntax highlighting to improve the legibility of your code and make ''
     @ ''it easier for us to help you.'' @ [NL, NL]
     @ ''**To do this, use the following method:**'' @ [NL] @ example_blocks"

definition BAD_TICKS_INSTRUCTIONS :: "string \<Rightarrow> string \<Rightarrow> string" where
  "BAD_TICKS_INSTRUCTIONS valid_ticks block_ticks =
     ''It looks like you are trying to paste code into this channel.'' @ [NL, NL]
     @ ''You seem to be using the wrong symbols to indicate where the code block should start. ''
     @ ''The correct symbols would be '' @ valid_ticks @ '', not `'' @ block_ticks @ ''`.''"

definition FURTHERMORE :: "string \<Rightarrow> string" where
  "FURTHERMORE rest = [NL, NL] @ ''Furthermore, '' @ rest"

definition EXAMPLE_SECTION :: "string \<Rightarrow> string" where
  "EXAMPLE_SECTION example_blocks =
     [NL, NL] @ ''**Here is an example of how it should look:**'' @ [NL] @ example_blocks"

subsection \<open>The advisors\<close>

text \<open>
  \<^verbatim>\<open>_get_no_ticks_message\<close>: instructions on using a code block at all, when the text is
  judged Python or REPL code; otherwise the function falls off its end and returns
  \<^verbatim>\<open>None\<close>. The calls of \<^verbatim>\<open>log.trace\<close> write to the logger and return nothing
  that is used; they are left out of all definitions.
\<close>

definition get_no_ticks_message :: "parsing \<Rightarrow> string \<Rightarrow> string option" where
  "get_no_ticks_message p body =
     (if is_repl_code p body \<or> is_python_code p body then
        let example_blocks = get_example p ''python''
        in Some (NO_TICKS_MESSAGE example_blocks)
      else None)"

text \<open>
  \<^verbatim>\<open>_get_bad_lang_message\<close>. The analyser's result is a named tuple of three fields, so
  \<^verbatim>\<open>not info\<close> holds only for \<^verbatim>\<open>None\<close>.
\<close>

definition get_bad_lang_message :: "parsing \<Rightarrow> string \<Rightarrow> string option" where
  "get_bad_lang_message p body =
     (case parse_bad_language p body of
        None \<Rightarrow> None
      | Some info \<Rightarrow>
          let lines = [];
              lang = BadLanguage.language info;
              lines = (if leading_spaces info then lines @ [NO_SPACES_LINE lang] else lines);
              lines = (if \<not> terminal_newline info then lines @ [NEW_LINE_LINE lang]
                       else lines)
          in if lines \<noteq> [] then
               let lines = join '' '' lines;
                   example_blocks = get_example p lang
               in Some (BAD_LANG_MESSAGE lines example_blocks)
             else None)"

text \<open>\<^verbatim>\<open>_get_no_lang_message\<close>.\<close>

definition get_no_lang_message :: "parsing \<Rightarrow> string \<Rightarrow> string option" where
  "get_no_lang_message p body =
     (if is_repl_code p body \<or> is_python_code p body then
        let example_blocks = get_example p ''python''
        in Some (NO_LANG_MESSAGE example_blocks)
      else None)"

text \<open>
  \<^verbatim>\<open>_get_bad_ticks_message\<close>. Reading \<^verbatim>\<open>addition_msg[0]\<close> raises \<^verbatim>\<open>IndexError\<close> on an
  empty string; \<^verbatim>\<open>addition_msg[1:]\<close> is the rest of the string.
\<close>

definition get_bad_ticks_message :: "parsing \<Rightarrow> CodeBlock \<Rightarrow> error + string option" where
  "get_bad_ticks_message p code_block =
     (let valid_ticks = times3 (BSL # BACKTICK p);
          instructions = BAD_TICKS_INSTRUCTIONS valid_ticks (times3 (tick code_block));
          addition_msg = get_bad_lang_message p (content code_block);
          addition_msg =
            (if \<not> truthy addition_msg \<and> CodeBlock.language code_block = [] then
               get_no_lang_message p (content code_block)
             else addition_msg)
      in if truthy addition_msg then
           let addition_msg = replace_first [NL, NL] '' '' (the addition_msg)
           in (case addition_msg of
                 [] \<Rightarrow> Inl IndexError
               | c # cs \<Rightarrow> Inr (Some (instructions @ FURTHERMORE (lower [c] @ cs))))
         else
           let example_blocks = get_example p (CodeBlock.language code_block)
           in Inr (Some (instructions @ EXAMPLE_SECTION example_blocks)))"

subsection \<open>The dispatcher\<close>

text \<open>
  \<^verbatim>\<open>get_instructions\<close>. The generator expression with \<^verbatim>\<open>next\<close> yields the first block whose
  tick differs from the backtick, or \<^verbatim>\<open>None\<close>; a block, being a named tuple of three
  fields, is true. \<^verbatim>\<open>blocks[0]\<close> raises \<^verbatim>\<open>IndexError\<close> on an empty sequence.
\<close>

definition get_instructions :: "parsing \<Rightarrow> string \<Rightarrow> error + string option" where
  "get_instructions p message =
     (case find_code_blocks p message of
        None \<Rightarrow> Inr None
      | Some blocks \<Rightarrow>
          if blocks = [] then Inr (get_no_ticks_message p message)
          else
            (case find (\<lambda>block. tick block \<noteq> BACKTICK p) blocks of
               Some block \<Rightarrow> get_bad_ticks_message p block
             | None \<Rightarrow>
                 (case blocks of
                    [] \<Rightarrow> Inl IndexError
                  | block # _ \<Rightarrow>
                      let description = get_bad_lang_message p (content block);
                          description =
                            (if \<not> truthy description then get_no_lang_message p (content block)
                             else description)
                      in Inr description)))"

subsection \<open>The subordinate clause, as the specification words it\<close>

text \<open>
  The specification describes the text surgery on a secondary message as lower-casing its
  first letter and collapsing its first double line break into a single space.
\<close>

definition lower_first :: "string \<Rightarrow> string" where
  "lower_first s = (case s of [] \<Rightarrow> [] | c # cs \<Rightarrow> lower_char c # cs)"

definition subordinate_clause :: "string \<Rightarrow> string" where
  "subordinate_clause s = replace_first [NL, NL] '' '' (lower_first s)"

subsection \<open>Texts quoted from a block\<close>



subsection \<open>The contract of the scanner\<close>



subsection \<open>A concrete parsing module\<close>

text \<open>
  An instance of the collaborators on which the theorems are evaluated: the backtick,
  three Python aliases, and a scanner, analyser and classifiers given by finite tables.
\<close>

definition demo_scan :: "string \<Rightarrow> CodeBlock list option" where
  "demo_scan message =
     (if message = ''valid'' then None
      else if message = ''tildes'' then
        Some [CodeBlock ''x = 1'' [] ''`'', CodeBlock ''print(1)'' ''python'' ''~'',
              CodeBlock ''y = 2'' [] ''*'']
      else if message = ''tagged'' then
        Some [CodeBlock ''print(1)'' ''python'' ''~'']
      else if message = ''untagged'' then
        Some [CodeBlock ''print(1)'' [] ''`'', CodeBlock ''py print(2)'' [] ''`'']
      else if message = ''spaced'' then
        Some [CodeBlock '' py print(2)'' [] ''`'']
      else Some [])"

definition demo_analyse :: "string \<Rightarrow> BadLanguage option" where
  "demo_analyse body =
     (if body = '' py print(2)'' then Some (BadLanguage ''py'' True False)
      else if body = ''py print(2)'' then Some (BadLanguage ''py'' False False)
      else if body = '' py'' then Some (BadLanguage ''py'' True True)
      else if body = ''py'' then Some (BadLanguage ''py'' False True)
      else None)"

definition demo :: parsing where
  "demo = \<lparr>BACKTICK = ''`'',
           PY_LANG_CODES = [''python'', ''py'', ''python3''],
           find_code_blocks = demo_scan,
           parse_bad_language = demo_analyse,
           is_repl_code = (\<lambda>s. prefix ''>>> '' s),
           is_python_code = (\<lambda>s. prefix ''print('' s \<or> s = ''x = 1'')\<rparr>"

section \<open>The example generator\<close>

lemma first_line_append:
  "first_line (xs @ ys) = (if NL \<in> set xs then first_line xs else xs @ first_line ys)"
  by (induction xs) (auto simp: first_line_def)

lemma first_line_id: "NL \<notin> set s \<Longrightarrow> first_line s = s"
  by (induction s) (auto simp: first_line_def)

lemma first_line_stop: "first_line (xs @ NL # ys) = first_line xs"
  by (induction xs) (auto simp: first_line_def)

lemma first_line_fence: "NL \<notin> set ESCAPED_FENCE"
  by (simp add: ESCAPED_FENCE_def)

lemma first_line_example_blocks:
  "first_line (EXAMPLE_CODE_BLOCKS (lang @ NL # rest)) = ESCAPED_FENCE @ first_line lang"
proof -
  have "EXAMPLE_CODE_BLOCKS (lang @ NL # rest)
        = ESCAPED_FENCE @ (lang @ NL # (rest @ [NL] @ ESCAPED_FENCE @ [NL, NL]
            @ RESULT_HEADER @ [NL] @ ''```'' @ (lang @ NL # rest) @ ''```''))"
    by (simp add: EXAMPLE_CODE_BLOCKS_def)
  then show ?thesis
    by (simp only: first_line_append [of ESCAPED_FENCE] first_line_fence
        first_line_stop if_False)
qed

text \<open>
  C3, as stated: for a non-empty language that is no Python alias, the first line of the
  generated example equals the language. It fails for the language \<open>ruby\<close>: the example
  opens with the escaped fence, so its first line is the fence followed by \<open>ruby\<close>.
\<close>

theorem get_example_first_line_counterexample:
  "''ruby'' \<noteq> [] \<and> lower ''ruby'' \<notin> set (PY_LANG_CODES demo)
   \<and> first_line (get_example demo ''ruby'') \<noteq> ''ruby''"
  by (simp add: get_example_def demo_def lower_def lower_char_def UPPER_def LOWER_def
      EXAMPLE_CODE_BLOCKS_def ESCAPED_FENCE_def first_line_def)

text \<open>
  C3, amended: for every non-empty language that is no Python alias, the first line of
  the generated example is the escaped opening fence followed by the first line of the
  language, unchanged in case; when the language has no line break this is the fence
  followed by the whole language string.
\<close>

theorem get_example_first_line:
  assumes "lang \<noteq> []" and "lower lang \<notin> set (PY_LANG_CODES p)"
  shows "first_line (get_example p lang) = ESCAPED_FENCE @ first_line lang
         \<and> (NL \<notin> set lang \<longrightarrow> first_line (get_example p lang) = ESCAPED_FENCE @ lang)"
proof -
  have "get_example p lang = EXAMPLE_CODE_BLOCKS (lang @ NL # ''...'')"
    using assms by (simp add: get_example_def)
  then have 1: "first_line (get_example p lang) = ESCAPED_FENCE @ first_line lang"
    by (simp only: first_line_example_blocks)
  have "NL \<notin> set lang \<Longrightarrow> first_line lang = lang"
    by (rule first_line_id)
  with 1 show ?thesis by simp
qed

theorem get_example_first_line_witness:
  "''Ruby'' \<noteq> [] \<and> lower ''Ruby'' \<notin> set (PY_LANG_CODES demo)
   \<and> NL \<notin> set ''Ruby''
   \<and> first_line (get_example demo ''Ruby'') = ESCAPED_FENCE @ ''Ruby''"
proof -
  have h: "lower ''Ruby'' \<notin> set (PY_LANG_CODES demo)"
    by (simp add: demo_def lower_def lower_char_def UPPER_def LOWER_def)
  have n: "NL \<notin> set ''Ruby''" by simp
  from get_example_first_line [of "''Ruby''" demo, OF _ h] n
  show ?thesis using h by (simp add: first_line_def)
qed

section \<open>Facts about the advisors\<close>


lemma demo_fields:
  "BACKTICK demo = ''`''"
  "PY_LANG_CODES demo = [''python'', ''py'', ''python3'']"
  "find_code_blocks demo = demo_scan"
  "parse_bad_language demo = demo_analyse"
  "is_repl_code demo = (\<lambda>s. prefix ''>>> '' s)"
  "is_python_code demo = (\<lambda>s. prefix ''print('' s \<or> s = ''x = 1'')"
  by (simp_all add: demo_def)

lemma NO_LANG_MESSAGE_nonempty: "NO_LANG_MESSAGE ex \<noteq> []"
  by (simp add: NO_LANG_MESSAGE_def)

lemma NO_TICKS_MESSAGE_nonempty: "NO_TICKS_MESSAGE ex \<noteq> []"
  by (simp add: NO_TICKS_MESSAGE_def)

lemma BAD_LANG_MESSAGE_nonempty: "BAD_LANG_MESSAGE ls ex \<noteq> []"
  by (simp add: BAD_LANG_MESSAGE_def)

lemma BAD_TICKS_INSTRUCTIONS_nonempty: "BAD_TICKS_INSTRUCTIONS v t \<noteq> []"
  by (simp add: BAD_TICKS_INSTRUCTIONS_def)

lemma get_no_lang_message_eq:
  "get_no_lang_message p body =
     (if is_repl_code p body \<or> is_python_code p body
      then Some (NO_LANG_MESSAGE (get_example p ''python'')) else None)"
  by (simp add: get_no_lang_message_def)

lemma get_no_ticks_message_eq:
  "get_no_ticks_message p body =
     (if is_repl_code p body \<or> is_python_code p body
      then Some (NO_TICKS_MESSAGE (get_example p ''python'')) else None)"
  by (simp add: get_no_ticks_message_def)

lemma get_bad_lang_message_eq:
  "get_bad_lang_message p body =
     (case parse_bad_language p body of
        None \<Rightarrow> None
      | Some info \<Rightarrow>
          if leading_spaces info then
            if terminal_newline info then
              Some (BAD_LANG_MESSAGE (NO_SPACES_LINE (BadLanguage.language info))
                      (get_example p (BadLanguage.language info)))
            else
              Some (BAD_LANG_MESSAGE
                      (NO_SPACES_LINE (BadLanguage.language info) @ '' ''
                       @ NEW_LINE_LINE (BadLanguage.language info))
                      (get_example p (BadLanguage.language info)))
          else if terminal_newline info then None
          else Some (BAD_LANG_MESSAGE (NEW_LINE_LINE (BadLanguage.language info))
                       (get_example p (BadLanguage.language info))))"
  by (simp add: get_bad_lang_message_def Let_def split: option.splits)

lemma truthy_bad_lang: "truthy (get_bad_lang_message p body) = (get_bad_lang_message p body \<noteq> None)"
  by (simp add: get_bad_lang_message_eq BAD_LANG_MESSAGE_nonempty split: option.splits)

lemma bad_lang_msg_shape:
  "get_bad_lang_message p body = Some m \<Longrightarrow> \<exists>cs. m = CHR ''I'' # cs"
  by (auto simp: get_bad_lang_message_eq BAD_LANG_MESSAGE_def split: option.splits if_splits)

lemma no_lang_msg_shape:
  "get_no_lang_message p body = Some m \<Longrightarrow> \<exists>cs. m = CHR ''I'' # cs"
  by (auto simp: get_no_lang_message_eq NO_LANG_MESSAGE_def split: option.splits if_splits)

lemma surgery:
  assumes "m = CHR ''I'' # cs"
  shows "(case replace_first [NL, NL] '' '' m of
            [] \<Rightarrow> Inl IndexError
          | c # cs \<Rightarrow> Inr (Some (ins @ FURTHERMORE (lower [c] @ cs))))
         = Inr (Some (ins @ FURTHERMORE (subordinate_clause m)))"
  using assms by (simp add: subordinate_clause_def lower_first_def lower_def lower_char_def UPPER_def LOWER_def)

lemma get_bad_ticks_message_eq:
  "get_bad_ticks_message p b =
     (let intro = BAD_TICKS_INSTRUCTIONS (times3 (BSL # BACKTICK p)) (times3 (tick b));
          secondary =
            (case get_bad_lang_message p (content b) of
               Some m \<Rightarrow> Some m
             | None \<Rightarrow>
                 if CodeBlock.language b = [] then get_no_lang_message p (content b)
                 else None)
      in case secondary of
           Some m \<Rightarrow> Inr (Some (intro @ FURTHERMORE (subordinate_clause m)))
         | None \<Rightarrow>
             Inr (Some (intro @ EXAMPLE_SECTION (get_example p (CodeBlock.language b)))))"
proof (cases "get_bad_lang_message p (content b)")
  case None
  show ?thesis
  proof (cases "CodeBlock.language b = [] \<and> get_no_lang_message p (content b) \<noteq> None")
    case True
    then obtain m where m: "get_no_lang_message p (content b) = Some m" by auto
    from no_lang_msg_shape [OF m] obtain cs where cs: "m = CHR ''I'' # cs" ..
    show ?thesis using None True m surgery [OF cs]
      by (simp add: get_bad_ticks_message_def Let_def cs)
  next
    case False
    then show ?thesis using None
      by (auto simp: get_bad_ticks_message_def Let_def)
  qed
next
  case (Some m)
  from bad_lang_msg_shape [OF Some] obtain cs where cs: "m = CHR ''I'' # cs" ..
  show ?thesis using Some surgery [OF cs]
    by (simp add: get_bad_ticks_message_def Let_def cs)
qed

section \<open>The dispatcher\<close>

lemma find_first:
  "\<forall>x\<in>set pre. \<not> P x \<Longrightarrow> P b \<Longrightarrow> find P (pre @ b # post) = Some b"
  by (induction pre) auto

lemma find_none: "\<forall>x\<in>set xs. \<not> P x \<Longrightarrow> find P xs = None"
  by (induction xs) auto

text \<open>
  C1: the dispatcher follows a strict priority order. When the scanner signals that all
  blocks are valid it returns nothing; when the scanner found no block it returns what the
  missing-fence advisor returns; when some block has a tick other than the backtick it
  returns what the bad-fence advisor returns on the first such block; otherwise it looks
  at the first block only, and returns the message of the malformed-language advisor, or,
  when that advisor has none, what the missing-language advisor returns.
\<close>

theorem get_instructions_priority:
  "(find_code_blocks p m1 = None \<longrightarrow> get_instructions p m1 = Inr None)
   \<and> (find_code_blocks p m2 = Some [] \<longrightarrow>
        get_instructions p m2 = Inr (get_no_ticks_message p m2))
   \<and> (find_code_blocks p m3 = Some (pre @ b # post)
        \<and> (\<forall>x\<in>set pre. tick x = BACKTICK p) \<and> tick b \<noteq> BACKTICK p \<longrightarrow>
        get_instructions p m3 = get_bad_ticks_message p b)
   \<and> (find_code_blocks p m4 = Some (b0 # bs)
        \<and> (\<forall>x\<in>set (b0 # bs). tick x = BACKTICK p) \<longrightarrow>
        get_instructions p m4 =
          Inr (case get_bad_lang_message p (content b0) of
                 Some d \<Rightarrow> Some d
               | None \<Rightarrow> get_no_lang_message p (content b0)))"
proof (intro conjI impI)
  assume "find_code_blocks p m1 = None"
  then show "get_instructions p m1 = Inr None"
    by (simp add: get_instructions_def)
next
  assume "find_code_blocks p m2 = Some []"
  then show "get_instructions p m2 = Inr (get_no_ticks_message p m2)"
    by (simp add: get_instructions_def)
next
  assume a: "find_code_blocks p m3 = Some (pre @ b # post)
        \<and> (\<forall>x\<in>set pre. tick x = BACKTICK p) \<and> tick b \<noteq> BACKTICK p"
  then have "find (\<lambda>block. tick block \<noteq> BACKTICK p) (pre @ b # post) = Some b"
    by (intro find_first) auto
  with a show "get_instructions p m3 = get_bad_ticks_message p b"
    by (simp add: get_instructions_def)
next
  assume a: "find_code_blocks p m4 = Some (b0 # bs)
        \<and> (\<forall>x\<in>set (b0 # bs). tick x = BACKTICK p)"
  then have "find (\<lambda>block. tick block \<noteq> BACKTICK p) (b0 # bs) = None"
    by (intro find_none) auto
  with a show "get_instructions p m4 =
          Inr (case get_bad_lang_message p (content b0) of
                 Some d \<Rightarrow> Some d
               | None \<Rightarrow> get_no_lang_message p (content b0))"
    by (simp add: get_instructions_def Let_def truthy_bad_lang split: option.splits)
qed

theorem get_instructions_priority_witness:
  "find_code_blocks demo ''valid'' = None
   \<and> get_instructions demo ''valid'' = Inr None
   \<and> find_code_blocks demo ''hello'' = Some []
   \<and> get_instructions demo ''hello'' = Inr (get_no_ticks_message demo ''hello'')
   \<and> find_code_blocks demo ''tildes''
       = Some ([CodeBlock ''x = 1'' [] ''`''] @ CodeBlock ''print(1)'' ''python'' ''~''
               # [CodeBlock ''y = 2'' [] ''*''])
   \<and> tick (CodeBlock ''x = 1'' [] ''`'') = BACKTICK demo
   \<and> tick (CodeBlock ''print(1)'' ''python'' ''~'') \<noteq> BACKTICK demo
   \<and> get_instructions demo ''tildes''
       = get_bad_ticks_message demo (CodeBlock ''print(1)'' ''python'' ''~'')
   \<and> find_code_blocks demo ''untagged''
       = Some (CodeBlock ''print(1)'' [] ''`'' # [CodeBlock ''py print(2)'' [] ''`''])
   \<and> tick (CodeBlock ''print(1)'' [] ''`'') = BACKTICK demo
   \<and> tick (CodeBlock ''py print(2)'' [] ''`'') = BACKTICK demo
   \<and> get_instructions demo ''untagged''
       = Inr (Some (NO_LANG_MESSAGE (get_example demo ''python'')))"
proof -
  have h1: "find_code_blocks demo ''valid'' = None"
    by (simp add: demo_fields demo_scan_def)
  have h2: "find_code_blocks demo ''hello'' = Some []"
    by (simp add: demo_fields demo_scan_def)
  have h3: "find_code_blocks demo ''tildes''
       = Some ([CodeBlock ''x = 1'' [] ''`''] @ CodeBlock ''print(1)'' ''python'' ''~''
               # [CodeBlock ''y = 2'' [] ''*''])
     \<and> (\<forall>x\<in>set [CodeBlock ''x = 1'' [] ''`'']. tick x = BACKTICK demo)
     \<and> tick (CodeBlock ''print(1)'' ''python'' ''~'') \<noteq> BACKTICK demo"
    by (simp add: demo_fields demo_scan_def)
  have h4: "find_code_blocks demo ''untagged''
       = Some (CodeBlock ''print(1)'' [] ''`'' # [CodeBlock ''py print(2)'' [] ''`''])
     \<and> (\<forall>x\<in>set (CodeBlock ''print(1)'' [] ''`'' # [CodeBlock ''py print(2)'' [] ''`'']).
         tick x = BACKTICK demo)"
    by (simp add: demo_fields demo_scan_def)
  have b: "get_bad_lang_message demo ''print(1)'' = None"
    by (simp add: get_bad_lang_message_def demo_fields demo_analyse_def)
  have n: "get_no_lang_message demo ''print(1)''
           = Some (NO_LANG_MESSAGE (get_example demo ''python''))"
    by (simp add: get_no_lang_message_def demo_fields)
  note t = get_instructions_priority [of demo "''valid''" "''hello''" "''tildes''"
      "[CodeBlock ''x = 1'' [] ''`'']" "CodeBlock ''print(1)'' ''python'' ''~''"
      "[CodeBlock ''y = 2'' [] ''*'']" "''untagged''" "CodeBlock ''print(1)'' [] ''`''"
      "[CodeBlock ''py print(2)'' [] ''`'']"]
  from t h1 have c1: "get_instructions demo ''valid'' = Inr None" by blast
  from t h2 have c2: "get_instructions demo ''hello'' = Inr (get_no_ticks_message demo ''hello'')"
    by blast
  from t h3 have c3: "get_instructions demo ''tildes''
       = get_bad_ticks_message demo (CodeBlock ''print(1)'' ''python'' ''~'')" by blast
  from t h4 have "get_instructions demo ''untagged'' =
          Inr (case get_bad_lang_message demo (content (CodeBlock ''print(1)'' [] ''`'')) of
                 Some d \<Rightarrow> Some d
               | None \<Rightarrow> get_no_lang_message demo (content (CodeBlock ''print(1)'' [] ''`'')))"
    by blast
  then have c4: "get_instructions demo ''untagged''
       = Inr (Some (NO_LANG_MESSAGE (get_example demo ''python'')))"
    by (simp add: b n)
  have ticks: "tick (CodeBlock ''x = 1'' [] ''`'') = BACKTICK demo"
    "tick (CodeBlock ''print(1)'' [] ''`'') = BACKTICK demo"
    "tick (CodeBlock ''py print(2)'' [] ''`'') = BACKTICK demo"
    by (simp_all add: demo_fields)
  from h1 h2 h3 h4 c1 c2 c3 c4 ticks show ?thesis by blast
qed

section \<open>The malformed-language advisor\<close>

text \<open>
  C7: the malformed-language advisor returns nothing when the analyser reports nothing,
  and nothing when the analyser's record has no leading spaces and a terminal newline.
  With leading spaces it returns the message with the sentence about the spaces, without
  a terminal newline the message with the two sentences about the new line, and with both
  defects all of these in that order, separated by one space. In each message the
  sentences stand between the opening line and the header of the example, and the
  message ends with the example for the language of the record.
\<close>

theorem get_bad_lang_message_cases:
  "(parse_bad_language p b1 = None \<longrightarrow> get_bad_lang_message p b1 = None)
   \<and> (parse_bad_language p b2 = Some (BadLanguage l2 False True) \<longrightarrow>
        get_bad_lang_message p b2 = None)
   \<and> (parse_bad_language p b3 = Some (BadLanguage l3 True True) \<longrightarrow>
        get_bad_lang_message p b3 =
          Some (''It looks like you incorrectly specified a language for your code block.''
                @ [NL, NL]
                @ ''Make sure there are no spaces between the back ticks and `'' @ l3 @ ''`.''
                @ [NL, NL]
                @ ''**Here is an example of how it should look:**'' @ [NL]
                @ get_example p l3))
   \<and> (parse_bad_language p b4 = Some (BadLanguage l4 False False) \<longrightarrow>
        get_bad_lang_message p b4 =
          Some (''It looks like you incorrectly specified a language for your code block.''
                @ [NL, NL]
                @ ''Make sure you put your code on a new line following `'' @ l4 @ ''`. ''
                @ ''There must not be any spaces after `'' @ l4 @ ''`.''
                @ [NL, NL]
                @ ''**Here is an example of how it should look:**'' @ [NL]
                @ get_example p l4))
   \<and> (parse_bad_language p b5 = Some (BadLanguage l5 True False) \<longrightarrow>
        get_bad_lang_message p b5 =
          Some (''It looks like you incorrectly specified a language for your code block.''
                @ [NL, NL]
                @ ''Make sure there are no spaces between the back ticks and `'' @ l5 @ ''`.''
                @ '' ''
                @ ''Make sure you put your code on a new line following `'' @ l5 @ ''`. ''
                @ ''There must not be any spaces after `'' @ l5 @ ''`.''
                @ [NL, NL]
                @ ''**Here is an example of how it should look:**'' @ [NL]
                @ get_example p l5))"
  by (simp add: get_bad_lang_message_def Let_def BAD_LANG_MESSAGE_def NO_SPACES_LINE_def
      NEW_LINE_LINE_def)

theorem get_bad_lang_message_cases_witness:
  "parse_bad_language demo ''print(1)'' = None
   \<and> get_bad_lang_message demo ''print(1)'' = None
   \<and> parse_bad_language demo ''py'' = Some (BadLanguage ''py'' False True)
   \<and> get_bad_lang_message demo ''py'' = None
   \<and> parse_bad_language demo '' py'' = Some (BadLanguage ''py'' True True)
   \<and> get_bad_lang_message demo '' py'' =
       Some (''It looks like you incorrectly specified a language for your code block.''
             @ [NL, NL]
             @ ''Make sure there are no spaces between the back ticks and `py`.''
             @ [NL, NL]
             @ ''**Here is an example of how it should look:**'' @ [NL]
             @ get_example demo ''py'')
   \<and> parse_bad_language demo ''py print(2)'' = Some (BadLanguage ''py'' False False)
   \<and> get_bad_lang_message demo ''py print(2)'' =
       Some (''It looks like you incorrectly specified a language for your code block.''
             @ [NL, NL]
             @ ''Make sure you put your code on a new line following `py`. ''
             @ ''There must not be any spaces after `py`.''
             @ [NL, NL]
             @ ''**Here is an example of how it should look:**'' @ [NL]
             @ get_example demo ''py'')
   \<and> parse_bad_language demo '' py print(2)'' = Some (BadLanguage ''py'' True False)
   \<and> get_bad_lang_message demo '' py print(2)'' =
       Some (''It looks like you incorrectly specified a language for your code block.''
             @ [NL, NL]
             @ ''Make sure there are no spaces between the back ticks and `py`. ''
             @ ''Make sure you put your code on a new line following `py`. ''
             @ ''There must not be any spaces after `py`.''
             @ [NL, NL]
             @ ''**Here is an example of how it should look:**'' @ [NL]
             @ get_example demo ''py'')"
proof -
  have h: "parse_bad_language demo ''print(1)'' = None"
    "parse_bad_language demo ''py'' = Some (BadLanguage ''py'' False True)"
    "parse_bad_language demo '' py'' = Some (BadLanguage ''py'' True True)"
    "parse_bad_language demo ''py print(2)'' = Some (BadLanguage ''py'' False False)"
    "parse_bad_language demo '' py print(2)'' = Some (BadLanguage ''py'' True False)"
    by (simp_all add: demo_fields demo_analyse_def)
  note t = get_bad_lang_message_cases [of demo "''print(1)''" "''py''" "''py''" "'' py''"
      "''py''" "''py print(2)''" "''py''" "'' py print(2)''" "''py''"]
  from t h(1) have c1: "get_bad_lang_message demo ''print(1)'' = None" by blast
  from t h(2) have c2: "get_bad_lang_message demo ''py'' = None" by blast
  from t h(3) have c3: "get_bad_lang_message demo '' py'' =
          Some (''It looks like you incorrectly specified a language for your code block.''
                @ [NL, NL]
                @ ''Make sure there are no spaces between the back ticks and `'' @ ''py'' @ ''`.''
                @ [NL, NL]
                @ ''**Here is an example of how it should look:**'' @ [NL]
                @ get_example demo ''py'')" by blast
  from t h(4) have c4: "get_bad_lang_message demo ''py print(2)'' =
          Some (''It looks like you incorrectly specified a language for your code block.''
                @ [NL, NL]
                @ ''Make sure you put your code on a new line following `'' @ ''py'' @ ''`. ''
                @ ''There must not be any spaces after `'' @ ''py'' @ ''`.''
                @ [NL, NL]
                @ ''**Here is an example of how it should look:**'' @ [NL]
                @ get_example demo ''py'')" by blast
  from t h(5) have c5: "get_bad_lang_message demo '' py print(2)'' =
          Some (''It looks like you incorrectly specified a language for your code block.''
                @ [NL, NL]
                @ ''Make sure there are no spaces between the back ticks and `'' @ ''py'' @ ''`.''
                @ '' ''
                @ ''Make sure you put your code on a new line following `'' @ ''py'' @ ''`. ''
                @ ''There must not be any spaces after `'' @ ''py'' @ ''`.''
                @ [NL, NL]
                @ ''**Here is an example of how it should look:**'' @ [NL]
                @ get_example demo ''py'')" by blast
  from h c1 c2 c3 c4 c5 show ?thesis by simp
qed

section \<open>The missing-language advisor in the fall-through\<close>










section \<open>Totality and the shape of the result\<close>

lemma get_bad_ticks_message_total: "\<exists>m. get_bad_ticks_message p b = Inr (Some m)"
  by (simp add: get_bad_ticks_message_eq Let_def split: option.splits)

lemma get_instructions_total: "\<exists>r. get_instructions p message = Inr r"
proof -
  have "\<exists>r. get_bad_ticks_message p c = Inr r" for c
    using get_bad_ticks_message_total [of p c] by blast
  then show ?thesis
    by (auto simp: get_instructions_def Let_def split: option.splits list.splits)
qed

text \<open>
  C9: no input raises. The example generator and the advisors for a missing fence, a
  malformed language and a missing language contain no operation that can raise, and
  their models return plain values. The bad-fence advisor indexes a string and the
  dispatcher indexes the list of blocks; neither ever reaches the error, so nothing to
  report is the value \<open>None\<close> and never an exception.
\<close>

theorem never_raises:
  "(\<exists>r. get_instructions p message = Inr r) \<and> (\<exists>r. get_bad_ticks_message p b = Inr r)"
  using get_instructions_total [of p message] get_bad_ticks_message_total [of p b] by blast

lemma get_bad_ticks_message_nonempty: "get_bad_ticks_message p b \<noteq> Inr (Some [])"
  by (simp add: get_bad_ticks_message_eq Let_def BAD_TICKS_INSTRUCTIONS_nonempty
      split: option.splits)

lemma get_bad_lang_message_nonempty: "get_bad_lang_message p body \<noteq> Some []"
  using bad_lang_msg_shape [of p body "[]"] by blast

lemma get_instructions_nonempty: "get_instructions p message \<noteq> Inr (Some [])"
proof (cases "find_code_blocks p message")
  case None
  then show ?thesis by (simp add: get_instructions_def)
next
  case (Some blocks)
  show ?thesis
  proof (cases "find (\<lambda>block. tick block \<noteq> BACKTICK p) blocks")
    case None
    with Some show ?thesis
      using get_bad_lang_message_nonempty [of p]
      by (auto simp: get_instructions_def Let_def get_no_ticks_message_eq
          get_no_lang_message_eq NO_TICKS_MESSAGE_nonempty NO_LANG_MESSAGE_nonempty
          split: list.splits option.splits)
  next
    case (Some block)
    with \<open>find_code_blocks p message = Some blocks\<close> show ?thesis
      using get_bad_ticks_message_nonempty [of p block]
      by (auto simp: get_instructions_def get_no_ticks_message_eq NO_TICKS_MESSAGE_nonempty)
  qed
qed

text \<open>
  C10: the dispatcher returns either \<open>None\<close> or a non-empty string; the empty string
  is never returned.
\<close>

theorem get_instructions_none_or_nonempty:
  "get_instructions p message = Inr None
   \<or> (\<exists>m. m \<noteq> [] \<and> get_instructions p message = Inr (Some m))"
proof -
  obtain r where r: "get_instructions p message = Inr r"
    using get_instructions_total by blast
  show ?thesis using get_instructions_nonempty [of p message] r by (cases r) auto
qed

section \<open>The missing-fence advisor\<close>

lemma get_example_python_tagged:
  "prefix (ESCAPED_FENCE @ ''python'' @ [NL]) (get_example p ''python'')"
  by (simp add: get_example_def EXAMPLE_CODE_BLOCKS_def EXAMPLE_PY_def Let_def)

lemma NO_TICKS_MESSAGE_example: "sublist ex (NO_TICKS_MESSAGE ex)"
  unfolding NO_TICKS_MESSAGE_def by (simp only: append_assoc [symmetric] sublist_append_leftI)

text \<open>
  C6: when the scanner finds no block at all, the dispatcher returns a non-empty message
  that contains the example for the language \<open>python\<close>, which opens with the escaped fence
  followed by \<open>python\<close> and a line break, if and only if the classifier takes the whole
  text for Python or REPL code; when the classifier does not, it returns nothing.
\<close>

theorem no_blocks_message:
  assumes "find_code_blocks p message = Some []"
  shows "((\<exists>m. get_instructions p message = Inr (Some m) \<and> m \<noteq> []
              \<and> sublist (get_example p ''python'') m
              \<and> prefix (ESCAPED_FENCE @ ''python'' @ [NL]) (get_example p ''python''))
          = (is_repl_code p message \<or> is_python_code p message))
         \<and> (\<not> (is_repl_code p message \<or> is_python_code p message)
              \<longrightarrow> get_instructions p message = Inr None)"
proof -
  have r: "get_instructions p message = Inr (get_no_ticks_message p message)"
    using assms by (simp add: get_instructions_def)
  show ?thesis
    unfolding r get_no_ticks_message_eq
    using get_example_python_tagged [of p]
    by (simp add: NO_TICKS_MESSAGE_nonempty NO_TICKS_MESSAGE_example)
qed

theorem no_blocks_message_witness:
  "find_code_blocks demo ''print(3)'' = Some []
   \<and> is_python_code demo ''print(3)''
   \<and> (\<exists>m. get_instructions demo ''print(3)'' = Inr (Some m) \<and> m \<noteq> []
          \<and> sublist (get_example demo ''python'') m)
   \<and> find_code_blocks demo ''hello'' = Some []
   \<and> \<not> is_repl_code demo ''hello'' \<and> \<not> is_python_code demo ''hello''
   \<and> get_instructions demo ''hello'' = Inr None"
proof -
  have h1: "find_code_blocks demo ''print(3)'' = Some []"
    and h2: "find_code_blocks demo ''hello'' = Some []"
    by (simp_all add: demo_fields demo_scan_def)
  have c1: "is_python_code demo ''print(3)''"
    and c2: "\<not> is_repl_code demo ''hello''" "\<not> is_python_code demo ''hello''"
    by (simp_all add: demo_fields)
  from no_blocks_message [OF h1] c1
  have a: "\<exists>m. get_instructions demo ''print(3)'' = Inr (Some m) \<and> m \<noteq> []
          \<and> sublist (get_example demo ''python'') m" by blast
  from no_blocks_message [OF h2] c2
  have b: "get_instructions demo ''hello'' = Inr None" by blast
  from h1 h2 c1 c2 a b show ?thesis by blast
qed

section \<open>The bad-fence advisor\<close>

lemma subordinate_clause_BAD_LANG_MESSAGE:
  "subordinate_clause (BAD_LANG_MESSAGE ls ex) =
     ''it looks like you incorrectly specified a language for your code block. '' @ ls
     @ [NL, NL] @ ''**Here is an example of how it should look:**'' @ [NL] @ ex"
  by (simp add: subordinate_clause_def lower_first_def lower_char_def UPPER_def LOWER_def BAD_LANG_MESSAGE_def)


text \<open>
  C4: on a block whose tick is not the backtick, the bad-fence advisor first asks the
  malformed-language advisor about the body of the block and, only when that advisor has
  nothing, looks for a missing language: the block has no language and the classifier takes
  its body for Python or REPL code. The message of whichever secondary issue is found is
  appended after \<open>Furthermore,\<close> as a subordinate clause, its first letter in lower case and
  its first double line break collapsed into one space; when there is none, the example
  for the language of the block is appended under its header instead.
\<close>

theorem bad_ticks_composition:
  assumes "tick b \<noteq> BACKTICK p"
  shows "get_bad_ticks_message p b =
     (let intro = BAD_TICKS_INSTRUCTIONS (times3 (BSL # BACKTICK p)) (times3 (tick b));
          secondary =
            (case get_bad_lang_message p (content b) of
               Some m \<Rightarrow> Some m
             | None \<Rightarrow>
                 if CodeBlock.language b = [] then get_no_lang_message p (content b)
                 else None)
      in case secondary of
           Some m \<Rightarrow> Inr (Some (intro @ [NL, NL] @ ''Furthermore, '' @ subordinate_clause m))
         | None \<Rightarrow>
             Inr (Some (intro @ [NL, NL] @ ''**Here is an example of how it should look:**''
                        @ [NL] @ get_example p (CodeBlock.language b))))"
  by (simp add: get_bad_ticks_message_eq FURTHERMORE_def EXAMPLE_SECTION_def Let_def
      split: option.splits)

theorem bad_ticks_composition_witness:
  "tick (CodeBlock '' py print(2)'' [] ''~'') \<noteq> BACKTICK demo
   \<and> get_bad_ticks_message demo (CodeBlock '' py print(2)'' [] ''~'') =
       Inr (Some (BAD_TICKS_INSTRUCTIONS (times3 (BSL # ''`'')) (times3 ''~'') @ [NL, NL]
                  @ ''Furthermore, ''
                  @ ''it looks like you incorrectly specified a language for your code block. ''
                  @ NO_SPACES_LINE ''py'' @ '' '' @ NEW_LINE_LINE ''py''
                  @ [NL, NL] @ ''**Here is an example of how it should look:**'' @ [NL]
                  @ get_example demo ''py''))"
proof -
  have h: "tick (CodeBlock '' py print(2)'' [] ''~'') \<noteq> BACKTICK demo"
    by (simp add: demo_fields)
  have m: "get_bad_lang_message demo '' py print(2)''
      = Some (BAD_LANG_MESSAGE (NO_SPACES_LINE ''py'' @ '' '' @ NEW_LINE_LINE ''py'')
                (get_example demo ''py''))"
    by (simp add: get_bad_lang_message_eq demo_fields demo_analyse_def)
  from bad_ticks_composition [OF h]
  have "get_bad_ticks_message demo (CodeBlock '' py print(2)'' [] ''~'') =
       Inr (Some (BAD_TICKS_INSTRUCTIONS (times3 (BSL # ''`'')) (times3 ''~'') @ [NL, NL]
                  @ ''Furthermore, ''
                  @ subordinate_clause
                      (BAD_LANG_MESSAGE (NO_SPACES_LINE ''py'' @ '' '' @ NEW_LINE_LINE ''py'')
                         (get_example demo ''py''))))"
    by (simp add: m demo_fields)
  then show ?thesis using h
    by (simp only: subordinate_clause_BAD_LANG_MESSAGE append_assoc simp_thms)
qed

section \<open>One message with one example\<close>





























end
